theory Spec2Isabelle
  imports Main "HOL-Library.AList"
begin

section \<open>JavaScript values and string primitives used by index.js\<close>

text \<open>
  Strings are lists of 8-bit characters. A value that is a string or \<open>undefined\<close> is
  an option, \<open>None\<close> standing for \<open>undefined\<close>. The values of the configuration
  blocks (\<open>custom.rust\<close> and the \<open>rust\<close> block of a function) come from YAML and may
  also be \<open>null\<close>: they are of the type \<open>js\<close> below, and a key of a block is either
  absent or present with such a value. The keys are typed as the plugin reads them: flags,
  tags, images, profiles and paths are strings, \<open>dockerless\<close> is a boolean. For the
  other optional values (the runtime and the package of a function, the runtime of the
  provider, the blocks themselves) \<open>null\<close> and \<open>undefined\<close> behave alike in this
  code, which only tests them, and \<open>None\<close> stands for either.
\<close>

datatype 'a js = Undefined | Null | Val 'a

definition truthy_s :: "string option \<Rightarrow> bool" where
  "truthy_s v = (case v of None \<Rightarrow> False | Some s \<Rightarrow> s \<noteq> [])"

definition truthy_js :: "string js \<Rightarrow> bool" where
  "truthy_js v = (case v of Undefined \<Rightarrow> False | Null \<Rightarrow> False | Val s \<Rightarrow> s \<noteq> [])"

definition truthy_jb :: "bool js \<Rightarrow> bool" where
  "truthy_jb v = (case v of Undefined \<Rightarrow> False | Null \<Rightarrow> False | Val b \<Rightarrow> b)"

text \<open>\<open>a || b\<close> yields \<open>a\<close> when it is truthy and \<open>b\<close> otherwise.\<close>

definition or_s :: "string option \<Rightarrow> string option \<Rightarrow> string option" where
  "or_s a b = (if truthy_s a then a else b)"

definition or_js :: "string js \<Rightarrow> string js \<Rightarrow> string js" where
  "or_js a b = (if truthy_js a then a else b)"

definition or_jb :: "bool js \<Rightarrow> bool js \<Rightarrow> bool js" where
  "or_jb a b = (if truthy_jb a then a else b)"

text \<open>
  A template literal \<open>`${v}`\<close> prints \<open>undefined\<close> for an undefined value and
  \<open>null\<close> for \<open>null\<close>.
\<close>

definition tpl :: "string option \<Rightarrow> string" where
  "tpl v = (case v of None \<Rightarrow> ''undefined'' | Some s \<Rightarrow> s)"

definition tpl_js :: "string js \<Rightarrow> string" where
  "tpl_js v = (case v of Undefined \<Rightarrow> ''undefined'' | Null \<Rightarrow> ''null'' | Val s \<Rightarrow> s)"

text \<open>
  \<open>s.split(c)\<close> for a one-character separator: every occurrence of the separator
  ends a piece, and the result always has at least one piece (\<open>"".split(".")\<close> is
  \<open>[""]\<close>).
\<close>

fun js_split :: "char \<Rightarrow> string \<Rightarrow> string list" where
  "js_split c [] = [[]]"
| "js_split c (x # xs) =
     (if x = c then [] # js_split c xs
      else (case js_split c xs of [] \<Rightarrow> [[x]] | y # ys \<Rightarrow> (x # y) # ys))"

text \<open>The characters below code 256 that the regular expression class \<open>\s\<close> matches.\<close>

definition js_space :: "char \<Rightarrow> bool" where
  "js_space c = (c \<in> set [CHR 0x09, CHR 0x0A, CHR 0x0B, CHR 0x0C, CHR 0x0D, CHR 0x20, CHR 0xA0])"

text \<open>
  \<open>s.split(/\s+/)\<close>: a maximal run of white space is one separator; the flag says
  that the previous character belonged to the separator being read.
\<close>

fun split_ws_from :: "bool \<Rightarrow> string \<Rightarrow> string list" where
  "split_ws_from insep [] = [[]]"
| "split_ws_from insep (x # xs) =
     (if js_space x then (if insep then split_ws_from True xs else [] # split_ws_from True xs)
      else (case split_ws_from False xs of [] \<Rightarrow> [[x]] | y # ys \<Rightarrow> (x # y) # ys))"

definition split_ws :: "string \<Rightarrow> string list" where
  "split_ws s = split_ws_from False s"

text \<open>\<open>array.filter((i) => i)\<close> keeps the truthy elements: the non-empty strings.\<close>

definition filter_truthy :: "string option list \<Rightarrow> string list" where
  "filter_truthy xs = map tpl (filter truthy_s xs)"

text \<open>Destructuring \<open>[a, b] = array\<close> reads index 0 and index 1; a missing index is undefined.\<close>

definition at_index :: "'a list \<Rightarrow> nat \<Rightarrow> 'a option" where
  "at_index xs i = (if i < length xs then Some (xs ! i) else None)"

section \<open>Constants of the module\<close>

definition DEFAULT_DOCKER_TAG :: string where "DEFAULT_DOCKER_TAG = ''0.2.7-rust-1.43.0''"
definition DEFAULT_DOCKER_IMAGE :: string where "DEFAULT_DOCKER_IMAGE = ''softprops/lambda-rust''"
definition RUST_RUNTIME :: string where "RUST_RUNTIME = ''rust''"
definition BASE_RUNTIME :: string where "BASE_RUNTIME = ''provided''"
definition MUSL_PLATFORMS :: "string list" where "MUSL_PLATFORMS = [''darwin'', ''windows'']"

section \<open>Data model\<close>

text \<open>
  The \<open>rust\<close> block of a function, and \<open>custom.rust\<close> of the service. A key is
  \<open>None\<close> when the block does not have it, and \<open>Some v\<close> when the block has it with
  the value \<open>v\<close>, which may be \<open>undefined\<close> or \<open>null\<close> (a YAML key without a
  value).
\<close>

record rust_config =
  cargoFlags :: "string js option"
  dockerTag :: "string js option"
  dockerImage :: "string js option"
  dockerless :: "bool js option"
  profile :: "string js option"
  dockerPath :: "string js option"

record package_config =
  artifact :: "string option"

record func =
  handler :: string
  runtime :: "string option"
  rust :: "rust_config option"
  package :: "package_config option"

text \<open>The service of the host framework: provider, functions by name, \<open>custom.rust\<close>.\<close>

record service =
  provider_name :: string
  provider_runtime :: "string option"
  service_functions :: "(string \<times> func) list"
  custom_rust :: "rust_config option"

text \<open>The plugin object \<open>this\<close> after the constructor.\<close>

record plugin =
  servicePath :: string
  custom :: rust_config
  this_dockerPath :: string
  options_function :: "string option"

record build_unit =
  cargoPackage :: "string option"
  binary :: "string option"

text \<open>
  What an executor hands back: the result object of \<open>spawnSync\<close> (\<open>error\<close>,
  \<open>status\<close>; a \<open>null\<close> or missing status is \<open>None\<close>), the empty object, or
  \<open>{err, status: 1}\<close>.
\<close>

record build_result =
  error :: "string option"
  status :: "nat option"
  err :: "string option"

record spawn_call =
  command :: string
  args :: "string list"
  call_env :: "(string \<times> string) list option"

record zip_entry =
  entry_name :: string
  entry_data :: string
  entry_comment :: string
  entry_attr :: nat

text \<open>What the pass has done to the outside so far.\<close>

record world =
  spawned :: "spawn_call list"
  logged :: "string list"
  made_dirs :: "string list"
  written :: "(string \<times> zip_entry list) list"

text \<open>
  The process the plugin runs in, and the library and operating-system calls it makes.
  \<open>global_this\<close> lists the properties of the global object; \<open>proc_spawn\<close> is the
  outcome of running an external command after the commands run before it;
  \<open>fs_read\<close> is \<open>None\<close> where \<open>readFileSync\<close> throws, \<open>fs_mkdir\<close> is
  \<open>False\<close> where \<open>mkdirSync\<close> throws, \<open>fs_write\<close> is the error where
  \<open>writeFileSync\<close> throws.
\<close>

record host =
  os_platform :: string
  os_homedir :: string
  process_env :: "(string \<times> string) list"
  global_this :: "(string \<times> string option) list"
  path_join :: "string list \<Rightarrow> string"
  path_resolve :: "string \<Rightarrow> string"
  proc_spawn :: "spawn_call list \<Rightarrow> spawn_call \<Rightarrow> build_result"
  fs_read :: "world \<Rightarrow> string \<Rightarrow> string option"
  fs_mkdir :: "world \<Rightarrow> string \<Rightarrow> bool"
  fs_write :: "world \<Rightarrow> string \<Rightarrow> string option"

datatype js_error =
    ReferenceError string
  | TypeError string
  | IOError string
  | FunctionNotFound string
  | BuildError "string option"
  | NoRustFunctions

definition env_get :: "host \<Rightarrow> string \<Rightarrow> string option" where
  "env_get h k = map_of (process_env h) k"

definition cli_log :: "string \<Rightarrow> world \<Rightarrow> world" where
  "cli_log msg w = w\<lparr>logged := logged w @ [msg]\<rparr>"

text \<open>Reading a key of a block: a key the block does not have reads as \<open>undefined\<close>.\<close>

definition read_key :: "'a js option \<Rightarrow> 'a js" where
  "read_key k = (case k of None \<Rightarrow> Undefined | Some v \<Rightarrow> v)"

text \<open>\<open>(funcArgs || {}).key\<close>\<close>

definition prop_of :: "rust_config option \<Rightarrow> (rust_config \<Rightarrow> 'a js option) \<Rightarrow> 'a js" where
  "prop_of funcArgs key = (case funcArgs of None \<Rightarrow> Undefined | Some c \<Rightarrow> read_key (key c))"

section \<open>The constructor\<close>

definition default_custom :: rust_config where
  "default_custom =
     \<lparr>cargoFlags = Some (Val []), dockerTag = Some (Val DEFAULT_DOCKER_TAG),
      dockerImage = Some (Val DEFAULT_DOCKER_IMAGE), dockerless = Some (Val False),
      profile = None, dockerPath = None\<rparr>"

text \<open>
  \<open>Object.assign(target, source)\<close>: every key the source has is copied over the target's,
  whatever its value (also \<open>undefined\<close> and \<open>null\<close>); a key the source does not have
  leaves the target's.
\<close>

definition assign_key :: "'a option \<Rightarrow> 'a option \<Rightarrow> 'a option" where
  "assign_key t s = (case s of None \<Rightarrow> t | Some v \<Rightarrow> Some v)"

definition object_assign :: "rust_config \<Rightarrow> rust_config \<Rightarrow> rust_config" where
  "object_assign t s =
     \<lparr>cargoFlags = assign_key (cargoFlags t) (cargoFlags s),
      dockerTag = assign_key (dockerTag t) (dockerTag s),
      dockerImage = assign_key (dockerImage t) (dockerImage s),
      dockerless = assign_key (dockerless t) (dockerless s),
      profile = assign_key (profile t) (profile s),
      dockerPath = assign_key (dockerPath t) (dockerPath s)\<rparr>"

definition empty_config :: rust_config where
  "empty_config =
     \<lparr>cargoFlags = None, dockerTag = None, dockerImage = None, dockerless = None,
      profile = None, dockerPath = None\<rparr>"

definition RustPlugin :: "host \<Rightarrow> string option \<Rightarrow> service \<Rightarrow> string option \<Rightarrow> plugin" where
  "RustPlugin h config_servicePath svc opt_function =
     (let sp = tpl (or_s config_servicePath (Some []));
          cu = object_assign default_custom
                 (case custom_rust svc of None \<Rightarrow> empty_config | Some c \<Rightarrow> c)
      in \<lparr>servicePath = sp, custom = cu,
          this_dockerPath = path_resolve h (tpl_js (or_js (read_key (dockerPath cu)) (Val sp))),
          options_function = opt_function\<rparr>)"

section \<open>cargoBinary, buildLocally\<close>

definition cargoBinary :: "func \<Rightarrow> build_unit" where
  "cargoBinary f =
     (let parts = js_split (CHR ''.'') (handler f);
          cargoPackage = at_index parts 0;
          binary = at_index parts 1
      in \<lparr>cargoPackage = cargoPackage,
          binary = (if binary = None then cargoPackage else binary)\<rparr>)"

definition buildLocally :: "plugin \<Rightarrow> func \<Rightarrow> bool" where
  "buildLocally p f =
     truthy_jb (or_jb (prop_of (rust f) dockerless) (read_key (dockerless (custom p))))"

section \<open>Effective configuration values\<close>

text \<open>
  Each executor reads a tunable as \<open>(funcArgs || {}).key || this.custom.key\<close>; the
  local executor ends the chain for the flags with \<open>|| ""\<close>; \<open>build\<close> reads the
  profile the same way from \<open>func.rust\<close>.
\<close>

definition local_cargoFlags :: "plugin \<Rightarrow> rust_config option \<Rightarrow> string" where
  "local_cargoFlags p funcArgs =
     tpl_js (or_js (or_js (prop_of funcArgs cargoFlags) (read_key (cargoFlags (custom p))))
               (Val []))"

definition docker_cargoFlags :: "plugin \<Rightarrow> rust_config option \<Rightarrow> string js" where
  "docker_cargoFlags p funcArgs =
     or_js (prop_of funcArgs cargoFlags) (read_key (cargoFlags (custom p)))"

definition docker_tag :: "plugin \<Rightarrow> rust_config option \<Rightarrow> string js" where
  "docker_tag p funcArgs = or_js (prop_of funcArgs dockerTag) (read_key (dockerTag (custom p)))"

definition docker_image :: "plugin \<Rightarrow> rust_config option \<Rightarrow> string js" where
  "docker_image p funcArgs =
     or_js (prop_of funcArgs dockerImage) (read_key (dockerImage (custom p)))"

definition build_profile :: "plugin \<Rightarrow> func \<Rightarrow> string js" where
  "build_profile p f = or_js (prop_of (rust f) profile) (read_key (profile (custom p)))"

section \<open>The local executor\<close>

definition localBuild_args ::
  "host \<Rightarrow> plugin \<Rightarrow> rust_config option \<Rightarrow> string option \<Rightarrow> string js \<Rightarrow> string list" where
  "localBuild_args h p funcArgs pkg prof =
     (let defaultArgs = [Some ''build'', Some ''-p'', pkg];
          profileArgs = (if prof \<noteq> Val ''dev'' then [Some ''--release''] else []);
          flags = split_ws (local_cargoFlags p funcArgs);
          targetArgs = (if os_platform h \<in> set MUSL_PLATFORMS
                        then [Some ''--target'', Some ''x86_64-unknown-linux-musl''] else [])
      in filter_truthy (defaultArgs @ profileArgs @ targetArgs @ map Some flags))"

text \<open>\<open>{...defaultEnv, ...platformEnv}\<close>: a key of the second object replaces the first's.\<close>

definition localBuild_env :: "host \<Rightarrow> (string \<times> string) list" where
  "localBuild_env h =
     (let defaultEnv = process_env h;
          rustflags = tpl (or_s (env_get h ''RUSTFLAGS'') (Some []));
          platformEnv =
            (if os_platform h = ''darwin''
             then [(''RUSTFLAGS'', rustflags @ '' -Clinker=x86_64-linux-musl-gcc''),
                   (''TARGET_CC'', ''x86_64-linux-musl-gcc''),
                   (''CC_x86_64_unknown_linux_musl'', ''x86_64-linux-musl-gcc'')]
             else if os_platform h = ''windows''
             then [(''RUSTFLAGS'', rustflags @ '' -Clinker=rust-lld''),
                   (''TARGET_CC'', ''rust-lld''),
                   (''CC_x86_64_unknown_linux_musl'', ''rust-lld'')]
             else [])
      in fold (\<lambda>(k, v). AList.update k v) platformEnv defaultEnv)"

text \<open>\<open>res.error || res.status > 0\<close>\<close>

definition failed :: "build_result \<Rightarrow> bool" where
  "failed res = (error res \<noteq> None \<or> (case status res of None \<Rightarrow> False | Some n \<Rightarrow> 0 < n))"

text \<open>
  The executor returns a result object or throws. Reading the compiled binary
  (\<open>readFileSync\<close>, and \<open>path.join\<close> on an undefined binary name before it) stands
  outside every \<open>try\<close>; \<open>mkdirSync\<close> is inside an empty \<open>catch\<close>;
  \<open>writeFileSync\<close> is inside the \<open>try\<close> whose \<open>catch\<close> returns
  \<open>{err, status: 1}\<close>.
\<close>

definition localBuild ::
  "host \<Rightarrow> plugin \<Rightarrow> rust_config option \<Rightarrow> string option \<Rightarrow> string option \<Rightarrow> string js
     \<Rightarrow> world \<Rightarrow> (js_error + build_result) \<times> world" where
  "localBuild h p funcArgs pkg bin prof w =
     (let finalArgs = localBuild_args h p funcArgs pkg prof;
          finalEnv = localBuild_env h;
          w1 = cli_log ''Running local cargo build'' w;
          call = \<lparr>command = ''cargo'', args = finalArgs, call_env = Some finalEnv\<rparr>;
          buildResult = proc_spawn h (spawned w1) call;
          w2 = w1\<lparr>spawned := spawned w1 @ [call]\<rparr>
      in if failed buildResult then (Inr buildResult, w2)
         else
          (let executable0 = ''target'';
               executable1 = (if os_platform h \<in> set MUSL_PLATFORMS
                              then path_join h [executable0, ''x86_64-unknown-linux-musl'']
                              else executable0);
               executable = path_join h
                 [executable1, (if prof \<noteq> Val ''dev'' then ''release'' else ''debug'')]
           in case bin of
                None \<Rightarrow> (Inl (TypeError ''path.join''), w2)
              | Some b \<Rightarrow>
                 (case fs_read h w2 (path_join h [executable, b]) of
                    None \<Rightarrow> (Inl (IOError (path_join h [executable, b])), w2)
                  | Some data \<Rightarrow>
                     (let zip = [\<lparr>entry_name = ''bootstrap'', entry_data = data,
                                  entry_comment = [], entry_attr = 755\<rparr>];
                          targetDir = path_join h
                            [''target'', ''lambda'',
                             (if prof \<noteq> Val ''dev'' then ''release'' else ''debug'')];
                          w3 = (if fs_mkdir h w2 targetDir
                                then w2\<lparr>made_dirs := made_dirs w2 @ [targetDir]\<rparr> else w2);
                          file = path_join h [targetDir, b @ ''.zip'']
                      in case fs_write h w3 file of
                           None \<Rightarrow>
                             (Inr \<lparr>error = None, status = None, err = None\<rparr>,
                              w3\<lparr>written := written w3 @ [(file, zip)]\<rparr>)
                         | Some e \<Rightarrow>
                             (Inr \<lparr>error = None, status = Some 1, err = Some e\<rparr>,
                              cli_log (''Error zipping artifact '' @ e) w3)))))"

section \<open>The container executor\<close>

definition dockerBuild_defaultArgs :: "host \<Rightarrow> plugin \<Rightarrow> string option \<Rightarrow> string list" where
  "dockerBuild_defaultArgs h p bin =
     (let cargoHome = tpl (or_s (env_get h ''CARGO_HOME'')
                              (Some (path_join h [os_homedir h, ''.cargo''])));
          cargoRegistry = path_join h [cargoHome, ''registry''];
          cargoDownloads = path_join h [cargoHome, ''git'']
      in [''run'', ''--rm'', ''-t'', ''-e'', ''BIN='' @ tpl bin,
          ''-v'', this_dockerPath p @ '':/code'',
          ''-v'', cargoRegistry @ '':/root/.cargo/registry'',
          ''-v'', cargoDownloads @ '':/root/.cargo/git''])"

text \<open>\<open>customArgs\<close> after the two conditional \<open>push\<close> calls.\<close>

definition dockerBuild_customArgs ::
  "host \<Rightarrow> plugin \<Rightarrow> rust_config option \<Rightarrow> string option \<Rightarrow> string js \<Rightarrow> string list" where
  "dockerBuild_customArgs h p funcArgs pkg prof =
     (let customArgs0 = js_split (CHR '' '') (tpl (or_s (env_get h ''SLS_DOCKER_ARGS'') (Some [])));
          flags0 = docker_cargoFlags p funcArgs;
          customArgs1 = (if truthy_js prof
                         then customArgs0 @ [''-e'', ''PROFILE='' @ tpl_js prof] else customArgs0);
          flags1 = (if pkg \<noteq> None
                    then (if truthy_js flags0
                          then Val (tpl_js flags0 @ '' -p '' @ tpl pkg)
                          else Val ('' -p '' @ tpl pkg))
                    else flags0)
      in if truthy_js flags1
         then customArgs1 @ [''-e'', ''CARGO_FLAGS='' @ tpl_js flags1] else customArgs1)"

definition dockerBuild_args ::
  "host \<Rightarrow> plugin \<Rightarrow> rust_config option \<Rightarrow> string option \<Rightarrow> string option \<Rightarrow> string js
     \<Rightarrow> string list" where
  "dockerBuild_args h p funcArgs pkg bin prof =
     (let defaultArgs = dockerBuild_defaultArgs h p bin;
          customArgs = dockerBuild_customArgs h p funcArgs pkg prof;
          tag = docker_tag p funcArgs;
          image = docker_image p funcArgs
      in filter (\<lambda>i. i \<noteq> []) (defaultArgs @ customArgs @ [tpl_js image @ '':'' @ tpl_js tag]))"

definition dockerBuild ::
  "host \<Rightarrow> plugin \<Rightarrow> rust_config option \<Rightarrow> string option \<Rightarrow> string option \<Rightarrow> string js
     \<Rightarrow> world \<Rightarrow> (js_error + build_result) \<times> world" where
  "dockerBuild h p funcArgs pkg bin prof w =
     (let dockerCLI = tpl (or_s (env_get h ''SLS_DOCKER_CLI'') (Some ''docker''));
          finalArgs = dockerBuild_args h p funcArgs pkg bin prof;
          w1 = cli_log ''Running containerized build'' w;
          call = \<lparr>command = dockerCLI, args = finalArgs, call_env = None\<rparr>
      in (Inr (proc_spawn h (spawned w1) call), w1\<lparr>spawned := spawned w1 @ [call]\<rparr>))"

section \<open>The build pass\<close>

definition functions' :: "plugin \<Rightarrow> service \<Rightarrow> string list" where
  "functions' p s =
     (if truthy_s (options_function p) then [tpl (options_function p)]
      else map fst (service_functions s))"

text \<open>
  \<open>service.getFunction\<close> belongs to the host framework: it returns the function object of
  that name, and throws for a name the service does not define.
\<close>

definition getFunction :: "service \<Rightarrow> string \<Rightarrow> func option" where
  "getFunction s name = map_of (service_functions s) name"

fun show_nat :: "nat \<Rightarrow> string" where
  "show_nat n =
     (if n < 10 then [char_of (48 + n)] else show_nat (n div 10) @ [char_of (48 + n mod 10)])"

type_synonym build_state = "world \<times> service \<times> bool"

text \<open>
  The conditional expression that calls an executor:
  \<open>this.buildLocally(func) ? this.localBuild(func.rust, cargoPackage, binary, profile)
   : this.dockerBuild(func.rust, cargoPackage, binary, profile)\<close>, given the value the
  identifier \<open>cargoPackage\<close> resolves to.
\<close>

definition run_executor ::
  "host \<Rightarrow> plugin \<Rightarrow> func \<Rightarrow> string option \<Rightarrow> world \<Rightarrow> (js_error + build_result) \<times> world" where
  "run_executor h p f pkg w =
     (if buildLocally p f
      then localBuild h p (rust f) pkg (binary (cargoBinary f)) (build_profile p f) w
      else dockerBuild h p (rust f) pkg (binary (cargoBinary f)) (build_profile p f) w)"

definition artifactPath :: "host \<Rightarrow> plugin \<Rightarrow> func \<Rightarrow> string" where
  "artifactPath h p f =
     path_join h
       [this_dockerPath p,
        ''target/lambda/'' @ (if Val ''dev'' = build_profile p f then ''debug'' else ''release''),
        tpl (binary (cargoBinary f)) @ ''.zip'']"

text \<open>
  The assignments after a successful executor: \<open>func.package = func.package || {}\<close>,
  \<open>func.package.artifact = artifactPath\<close>, and \<open>func.runtime = BASE_RUNTIME\<close> under
  the guard \<open>func.runtime == RUST_RUNTIME\<close>.
\<close>

definition packaged :: "host \<Rightarrow> plugin \<Rightarrow> func \<Rightarrow> func" where
  "packaged h p f =
     (let pk = (case package f of None \<Rightarrow> \<lparr>artifact = None\<rparr> | Some pk \<Rightarrow> pk);
          f1 = f\<lparr>package := Some (pk\<lparr>artifact := Some (artifactPath h p f)\<rparr>)\<rparr>
      in if runtime f1 = Some RUST_RUNTIME then f1\<lparr>runtime := Some BASE_RUNTIME\<rparr> else f1)"

definition error_message :: "build_result \<Rightarrow> string" where
  "error_message res =
     ''Rust build encountered an error: ''
       @ (case error res of None \<Rightarrow> ''undefined'' | Some m \<Rightarrow> ''Error: '' @ m)
       @ '' '' @ (case status res of None \<Rightarrow> ''null'' | Some n \<Rightarrow> show_nat n) @ ''.''"

text \<open>
  The callback of \<open>forEach\<close> in \<open>build\<close>, on the state (outside world, service,
  \<open>rustFunctionsFound\<close>); \<open>Some e\<close> is the exception it throws. The destructuring
  \<open>const { cargoBinary, binary } = this.cargoBinary(func)\<close> binds \<open>binary\<close> and a
  local \<open>cargoBinary\<close> (the result has no such property: undefined, and never read). The
  call of the executor then reads \<open>cargoPackage\<close>, which neither the callback, nor
  \<open>build\<close>, nor the module declares: the reference resolves on the global object, and is
  a ReferenceError when the global object has no such property. The arguments are evaluated
  after \<open>this.buildLocally(func)\<close> and before the executor is entered.
\<close>

definition build_func :: "host \<Rightarrow> plugin \<Rightarrow> string \<Rightarrow> build_state \<Rightarrow> js_error option \<times> build_state" where
  "build_func h p funcName st =
     (case st of (w, s, found) \<Rightarrow>
       (case getFunction s funcName of
          None \<Rightarrow> (Some (FunctionNotFound funcName), st)
        | Some f \<Rightarrow>
           (if or_s (runtime f) (provider_runtime s) \<noteq> Some RUST_RUNTIME then (None, st)
            else
             (let w1 = cli_log (''Building Rust '' @ handler f @ '' func...'') w
              in case map_of (global_this h) ''cargoPackage'' of
                   None \<Rightarrow> (Some (ReferenceError ''cargoPackage''), (w1, s, True))
                 | Some pkg \<Rightarrow>
                    (case run_executor h p f pkg w1 of
                       (Inl e, w2) \<Rightarrow> (Some e, (w2, s, True))
                     | (Inr res, w2) \<Rightarrow>
                        (if failed res
                         then (Some (BuildError (error res)),
                               (cli_log (error_message res) w2, s, True))
                         else (None,
                               (w2,
                                s\<lparr>service_functions :=
                                    AList.update funcName (packaged h p f) (service_functions s)\<rparr>,
                                True))))))))"

text \<open>\<open>array.forEach(callback)\<close>: an exception of the callback ends the iteration.\<close>

fun forEach ::
  "(string \<Rightarrow> build_state \<Rightarrow> js_error option \<times> build_state) \<Rightarrow> string list \<Rightarrow> build_state
     \<Rightarrow> js_error option \<times> build_state" where
  "forEach cb [] st = (None, st)"
| "forEach cb (x # xs) st =
     (case cb x st of
        (Some e, st') \<Rightarrow> (Some e, st')
      | (None, st') \<Rightarrow> forEach cb xs st')"

definition build :: "host \<Rightarrow> plugin \<Rightarrow> world \<times> service \<Rightarrow> js_error option \<times> world \<times> service" where
  "build h p ws =
     (case ws of (w, service) \<Rightarrow>
       (if provider_name service \<noteq> ''aws'' then (None, w, service)
        else
         (case forEach (build_func h p) (functions' p service) (w, service, False) of
            (Some e, (w', s', found)) \<Rightarrow> (Some e, w', s')
          | (None, (w', s', rustFunctionsFound)) \<Rightarrow>
             (let s'' = (if provider_runtime s' = Some RUST_RUNTIME
                         then s'\<lparr>provider_runtime := Some BASE_RUNTIME\<rparr> else s')
              in if \<not> rustFunctionsFound then (Some NoRustFunctions, w', s'')
                 else (None, w', s'')))))"

section \<open>The specification's wording, for comparison\<close>

datatype parse_error = MalformedHandler

text \<open>
  HandlerParser as the specification words it: split on the first separator; without a
  binary segment the binary name is the unit id; MalformedHandler when the unit segment is
  empty.
\<close>

definition HandlerParser_spec :: "string \<Rightarrow> parse_error + build_unit" where
  "HandlerParser_spec hd_str =
     (let unit = takeWhile (\<lambda>c. c \<noteq> CHR ''.'') hd_str;
          rest = dropWhile (\<lambda>c. c \<noteq> CHR ''.'') hd_str
      in if unit = [] then Inl MalformedHandler
         else Inr \<lparr>cargoPackage = Some unit,
                   binary = Some (case rest of [] \<Rightarrow> unit | _ # b \<Rightarrow> b)\<rparr>)"

text \<open>The white-space-split tokens of a string, as the specification words the extra arguments.\<close>

definition whitespace_tokens :: "string \<Rightarrow> string list" where
  "whitespace_tokens v = filter (\<lambda>t. t \<noteq> []) (split_ws v)"

section \<open>Example inputs\<close>

fun join_slash :: "string list \<Rightarrow> string" where
  "join_slash [] = ''.''"
| "join_slash [x] = x"
| "join_slash (x # xs) = x @ ''/'' @ join_slash xs"

definition empty_world :: world where
  "empty_world = \<lparr>spawned = [], logged = [], made_dirs = [], written = []\<rparr>"

text \<open>
  A Linux host where every external command exits with status 0 and every file operation
  succeeds; the global object has no property \<open>cargoPackage\<close>.
\<close>

definition linux_host :: host where
  "linux_host =
     \<lparr>os_platform = ''linux'', os_homedir = ''/home/dev'', process_env = [],
      global_this = [], path_join = join_slash, path_resolve = (\<lambda>x. ''/srv/'' @ x),
      proc_spawn = (\<lambda>history call. \<lparr>error = None, status = Some 0, err = None\<rparr>),
      fs_read = (\<lambda>w file. Some ''ELF''), fs_mkdir = (\<lambda>w dir. True),
      fs_write = (\<lambda>w file. None)\<rparr>"

text \<open>The same host in a process whose global object defines \<open>cargoPackage\<close>.\<close>

definition linux_host_global :: host where
  "linux_host_global = linux_host\<lparr>global_this := [(''cargoPackage'', Some ''selected'')]\<rparr>"

definition hello :: func where
  "hello = \<lparr>handler = ''hello.world'', runtime = Some ''rust'', rust = None, package = None\<rparr>"

definition other :: func where
  "other = \<lparr>handler = ''other'', runtime = Some ''rust'', rust = None, package = None\<rparr>"

definition node_fn :: func where
  "node_fn = \<lparr>handler = ''index.handler'', runtime = Some ''nodejs12.x'', rust = None,
               package = None\<rparr>"

definition demo_service :: service where
  "demo_service =
     \<lparr>provider_name = ''aws'', provider_runtime = None,
      service_functions = [(''hello'', hello), (''other'', other)], custom_rust = None\<rparr>"

definition demo_plugin :: plugin where
  "demo_plugin = RustPlugin linux_host (Some ''app'') demo_service None"

text \<open>A host where every external command exits with status 101.\<close>

definition failing_host :: host where
  "failing_host =
     linux_host_global\<lparr>proc_spawn := (\<lambda>history call. \<lparr>error = None, status = Some 101, err = None\<rparr>)\<rparr>"

definition node_service :: service where
  "node_service = demo_service\<lparr>service_functions := [(''web'', node_fn)]\<rparr>"

text \<open>A service whose only function declares no runtime and inherits \<open>rust\<close>.\<close>

definition default_runtime_service :: service where
  "default_runtime_service =
     \<lparr>provider_name = ''aws'', provider_runtime = Some ''rust'',
      service_functions = [(''hello'', hello\<lparr>runtime := None\<rparr>)], custom_rust = None\<rparr>"

section \<open>Splitting the handler\<close>

lemma js_split_pieces:
  "js_split c s =
     takeWhile (\<lambda>x. x \<noteq> c) s #
       (case dropWhile (\<lambda>x. x \<noteq> c) s of [] \<Rightarrow> [] | _ # r \<Rightarrow> js_split c r)"
proof (induction s)
  case Nil
  show ?case by simp
next
  case (Cons x xs)
  show ?case
  proof (cases "x = c")
    case True
    then show ?thesis by simp
  next
    case False
    then show ?thesis using Cons.IH by (simp split: list.splits)
  qed
qed

lemma cargoBinary_pieces:
  "cargoBinary f =
     \<lparr>cargoPackage = Some (takeWhile (\<lambda>x. x \<noteq> CHR ''.'') (handler f)),
      binary = Some (case dropWhile (\<lambda>x. x \<noteq> CHR ''.'') (handler f) of
                       [] \<Rightarrow> takeWhile (\<lambda>x. x \<noteq> CHR ''.'') (handler f)
                     | _ # r \<Rightarrow> takeWhile (\<lambda>x. x \<noteq> CHR ''.'') r)\<rparr>"
proof (cases "dropWhile (\<lambda>x. x \<noteq> CHR ''.'') (handler f)")
  case Nil
  have "js_split (CHR ''.'') (handler f) = [takeWhile (\<lambda>x. x \<noteq> CHR ''.'') (handler f)]"
    using js_split_pieces [of "CHR ''.''" "handler f"] Nil by simp
  then show ?thesis
    by (simp add: cargoBinary_def Let_def at_index_def Nil del: dropWhile_eq_Nil_conv)
next
  case (Cons d r)
  have "js_split (CHR ''.'') (handler f) =
          takeWhile (\<lambda>x. x \<noteq> CHR ''.'') (handler f) # js_split (CHR ''.'') r"
    using js_split_pieces [of "CHR ''.''" "handler f"] Cons by simp
  moreover obtain rest where "js_split (CHR ''.'') r = takeWhile (\<lambda>x. x \<noteq> CHR ''.'') r # rest"
    using js_split_pieces [of "CHR ''.''" r] by blast
  ultimately show ?thesis
    by (simp add: cargoBinary_def Let_def at_index_def Cons)
qed

lemma takeWhile_before_sep: "c \<notin> set a \<Longrightarrow> takeWhile (\<lambda>x. x \<noteq> c) (a @ c # r) = a"
  by (induction a) auto

lemma dropWhile_before_sep: "c \<notin> set a \<Longrightarrow> dropWhile (\<lambda>x. x \<noteq> c) (a @ c # r) = c # r"
  by (induction a) auto

lemma takeWhile_no_sep: "c \<notin> set a \<Longrightarrow> takeWhile (\<lambda>x. x \<noteq> c) a = a"
  by (induction a) auto

lemma dropWhile_no_sep: "c \<notin> set a \<Longrightarrow> dropWhile (\<lambda>x. x \<noteq> c) a = []"
  by (induction a) auto

text \<open>
  C2, as the code has it. \<open>cargoBinary\<close> splits the handler on every separator and keeps
  the first two pieces: a handler \<open>a.b\<close> with \<open>a\<close> and \<open>b\<close> free of separators
  gives unit \<open>a\<close> and binary \<open>b\<close>, and so does \<open>a.b.c\<close> (what follows the second
  separator is dropped); a handler \<open>a\<close> without separator gives unit \<open>a\<close> and binary
  \<open>a\<close>. It never fails: the empty handler gives the empty unit and the empty binary.
\<close>

theorem cargoBinary_splits_every_separator:
  "(CHR ''.'' \<notin> set a \<and> CHR ''.'' \<notin> set b \<and> handler f = a @ ''.'' @ b
      \<longrightarrow> cargoBinary f = \<lparr>cargoPackage = Some a, binary = Some b\<rparr>) \<and>
   (CHR ''.'' \<notin> set a \<and> CHR ''.'' \<notin> set b \<and> handler f = a @ ''.'' @ b @ ''.'' @ c
      \<longrightarrow> cargoBinary f = \<lparr>cargoPackage = Some a, binary = Some b\<rparr>) \<and>
   (CHR ''.'' \<notin> set a \<and> handler f = a
      \<longrightarrow> cargoBinary f = \<lparr>cargoPackage = Some a, binary = Some a\<rparr>) \<and>
   (handler f = [] \<longrightarrow> cargoBinary f = \<lparr>cargoPackage = Some [], binary = Some []\<rparr>)"
proof (intro conjI impI)
  assume "CHR ''.'' \<notin> set a \<and> CHR ''.'' \<notin> set b \<and> handler f = a @ ''.'' @ b"
  then show "cargoBinary f = \<lparr>cargoPackage = Some a, binary = Some b\<rparr>"
    by (simp add: cargoBinary_pieces takeWhile_before_sep dropWhile_before_sep takeWhile_no_sep)
next
  assume "CHR ''.'' \<notin> set a \<and> CHR ''.'' \<notin> set b \<and> handler f = a @ ''.'' @ b @ ''.'' @ c"
  then show "cargoBinary f = \<lparr>cargoPackage = Some a, binary = Some b\<rparr>"
    by (simp add: cargoBinary_pieces takeWhile_before_sep dropWhile_before_sep)
next
  assume "CHR ''.'' \<notin> set a \<and> handler f = a"
  then show "cargoBinary f = \<lparr>cargoPackage = Some a, binary = Some a\<rparr>"
    by (simp add: cargoBinary_pieces takeWhile_no_sep dropWhile_no_sep)
next
  assume "handler f = []"
  then show "cargoBinary f = \<lparr>cargoPackage = Some [], binary = Some []\<rparr>"
    by (simp add: cargoBinary_pieces)
qed

text \<open>The handlers \<open>hello.world\<close>, \<open>other\<close> and \<open>a.b.c\<close>.\<close>

theorem cargoBinary_splits_every_separator_witness:
  "cargoBinary hello = \<lparr>cargoPackage = Some ''hello'', binary = Some ''world''\<rparr> \<and>
   cargoBinary other = \<lparr>cargoPackage = Some ''other'', binary = Some ''other''\<rparr> \<and>
   cargoBinary (hello\<lparr>handler := ''a.b.c''\<rparr>) = \<lparr>cargoPackage = Some ''a'', binary = Some ''b''\<rparr>"
proof -
  have h1: "CHR ''.'' \<notin> set ''hello'' \<and> CHR ''.'' \<notin> set ''world''
              \<and> handler hello = ''hello'' @ ''.'' @ ''world''"
    by (simp add: hello_def)
  have h2: "CHR ''.'' \<notin> set ''other'' \<and> handler other = ''other''"
    by (simp add: other_def)
  have h3: "CHR ''.'' \<notin> set ''a'' \<and> CHR ''.'' \<notin> set ''b''
              \<and> handler (hello\<lparr>handler := ''a.b.c''\<rparr>) = ''a'' @ ''.'' @ ''b'' @ ''.'' @ ''c''"
    by simp
  show ?thesis
    using h1 h2 h3
      cargoBinary_splits_every_separator [of "''hello''" "''world''" hello]
      cargoBinary_splits_every_separator [of "''other''" _ other]
      cargoBinary_splits_every_separator [of "''a''" "''b''" "hello\<lparr>handler := ''a.b.c''\<rparr>" "''c''"]
    by blast
qed

text \<open>
  C2 as stated fails at the empty handler: the specification's parser raises
  MalformedHandler there, \<open>cargoBinary\<close> returns the unit with both names empty.
\<close>

theorem empty_handler_counterexample:
  "HandlerParser_spec [] = Inl MalformedHandler \<and>
   cargoBinary \<lparr>handler = [], runtime = Some ''rust'', rust = None, package = None\<rparr>
     = \<lparr>cargoPackage = Some [], binary = Some []\<rparr>"
  by (simp add: HandlerParser_spec_def cargoBinary_def at_index_def Let_def)

text \<open>
  C9, as the code has it. Every handler is accepted and the binary name is always a
  string; it is non-empty exactly when the handler is non-empty and, where the handler has
  a separator, the first separator is followed by a character that is not a separator.
\<close>

theorem binary_nonempty_iff:
  "\<exists>b. binary (cargoBinary f) = Some b \<and>
     (b \<noteq> [] \<longleftrightarrow>
        handler f \<noteq> [] \<and>
        (case dropWhile (\<lambda>x. x \<noteq> CHR ''.'') (handler f) of
           [] \<Rightarrow> True | [d] \<Rightarrow> False | d # x # r \<Rightarrow> x \<noteq> CHR ''.''))"
proof -
  let ?P = "\<lambda>x. x \<noteq> CHR ''.''"
  have whole: "takeWhile ?P (handler f) @ dropWhile ?P (handler f) = handler f"
    by (rule takeWhile_dropWhile_id)
  show ?thesis
  proof (cases "dropWhile ?P (handler f)")
    case Nil
    with whole have tw: "takeWhile ?P (handler f) = handler f" by simp
    show ?thesis
      by (simp add: cargoBinary_pieces Nil tw del: dropWhile_eq_Nil_conv)
  next
    case outer: (Cons d r)
    with whole have ne: "handler f \<noteq> []" by auto
    show ?thesis
    proof (cases r)
      case Nil
      then show ?thesis by (simp add: cargoBinary_pieces outer)
    next
      case (Cons x r')
      then show ?thesis by (simp add: cargoBinary_pieces outer ne)
    qed
  qed
qed

text \<open>The handler \<open>hello.world\<close> has the non-empty binary name \<open>world\<close>.\<close>

theorem binary_nonempty_iff_witness:
  "binary (cargoBinary hello) = Some ''world'' \<and> handler hello = ''hello.world''"
proof -
  obtain b where b: "binary (cargoBinary hello) = Some b"
    using binary_nonempty_iff [of hello] by blast
  have "binary (cargoBinary hello) = Some ''world''"
    by (simp add: cargoBinary_def hello_def at_index_def Let_def)
  then show ?thesis using b by (simp add: hello_def)
qed

text \<open>
  C9 as stated fails at the handler \<open>a.\<close>, which \<open>cargoBinary\<close> accepts with the
  empty binary name.
\<close>

theorem trailing_separator_counterexample:
  "cargoBinary \<lparr>handler = ''a.'', runtime = Some ''rust'', rust = None, package = None\<rparr>
     = \<lparr>cargoPackage = Some ''a'', binary = Some []\<rparr>"
  by (simp add: cargoBinary_def at_index_def Let_def)

section \<open>Effective configuration values\<close>

lemma custom_of_RustPlugin:
  "custom (RustPlugin h sp svc opt) =
     object_assign default_custom (case custom_rust svc of None \<Rightarrow> empty_config | Some c \<Rightarrow> c)"
  by (simp add: RustPlugin_def Let_def)

text \<open>
  C3, as the code has it. Every tunable is read as \<open>override || global\<close> after
  \<open>Object.assign\<close> has laid the global block over the built-in defaults: the effective
  value is the override of the function when that is truthy (a non-empty string; \<open>true\<close>
  for \<open>dockerless\<close>), otherwise the value of the global block when the block has the key,
  whatever that value is (also \<open>null\<close> or \<open>undefined\<close>), otherwise the built-in
  default. The profile has no built-in default (it stays undefined), the local build reads
  flags that are not a non-empty string as the empty string, and \<open>buildLocally\<close> reads
  the value as a condition.
\<close>

theorem config_precedence_truthy:
  "(let p = RustPlugin h sp svc opt;
        g = (case custom_rust svc of None \<Rightarrow> empty_config | Some c \<Rightarrow> c);
        ov = rust f
    in buildLocally p f =
         (if truthy_jb (prop_of ov dockerless) then True
          else (case dockerless g of Some v \<Rightarrow> truthy_jb v | None \<Rightarrow> False)) \<and>
       build_profile p f =
         (if truthy_js (prop_of ov profile) then prop_of ov profile
          else (case profile g of Some v \<Rightarrow> v | None \<Rightarrow> Undefined)) \<and>
       docker_tag p ov =
         (if truthy_js (prop_of ov dockerTag) then prop_of ov dockerTag
          else (case dockerTag g of Some v \<Rightarrow> v | None \<Rightarrow> Val DEFAULT_DOCKER_TAG)) \<and>
       docker_image p ov =
         (if truthy_js (prop_of ov dockerImage) then prop_of ov dockerImage
          else (case dockerImage g of Some v \<Rightarrow> v | None \<Rightarrow> Val DEFAULT_DOCKER_IMAGE)) \<and>
       docker_cargoFlags p ov =
         (if truthy_js (prop_of ov cargoFlags) then prop_of ov cargoFlags
          else (case cargoFlags g of Some v \<Rightarrow> v | None \<Rightarrow> Val [])) \<and>
       local_cargoFlags p ov =
         (if truthy_js (prop_of ov cargoFlags) then tpl_js (prop_of ov cargoFlags)
          else (case cargoFlags g of Some (Val c) \<Rightarrow> c | _ \<Rightarrow> [])))"
proof -
  let ?g = "case custom_rust svc of None \<Rightarrow> empty_config | Some c \<Rightarrow> c"
  let ?p = "RustPlugin h sp svc opt"
  have cu: "custom ?p = object_assign default_custom ?g" by (rule custom_of_RustPlugin)
  have a: "buildLocally ?p f =
         (if truthy_jb (prop_of (rust f) dockerless) then True
          else (case dockerless ?g of Some v \<Rightarrow> truthy_jb v | None \<Rightarrow> False))"
    by (simp add: buildLocally_def cu object_assign_def default_custom_def assign_key_def
        read_key_def or_jb_def truthy_jb_def split: option.splits)
  have b: "build_profile ?p f =
         (if truthy_js (prop_of (rust f) profile) then prop_of (rust f) profile
          else (case profile ?g of Some v \<Rightarrow> v | None \<Rightarrow> Undefined))"
    by (simp add: build_profile_def cu object_assign_def default_custom_def assign_key_def
        read_key_def or_js_def split: option.splits)
  have c: "docker_tag ?p (rust f) =
         (if truthy_js (prop_of (rust f) dockerTag) then prop_of (rust f) dockerTag
          else (case dockerTag ?g of Some v \<Rightarrow> v | None \<Rightarrow> Val DEFAULT_DOCKER_TAG))"
    by (simp add: docker_tag_def cu object_assign_def default_custom_def assign_key_def
        read_key_def or_js_def split: option.splits)
  have d: "docker_image ?p (rust f) =
         (if truthy_js (prop_of (rust f) dockerImage) then prop_of (rust f) dockerImage
          else (case dockerImage ?g of Some v \<Rightarrow> v | None \<Rightarrow> Val DEFAULT_DOCKER_IMAGE))"
    by (simp add: docker_image_def cu object_assign_def default_custom_def assign_key_def
        read_key_def or_js_def split: option.splits)
  have e: "docker_cargoFlags ?p (rust f) =
         (if truthy_js (prop_of (rust f) cargoFlags) then prop_of (rust f) cargoFlags
          else (case cargoFlags ?g of Some v \<Rightarrow> v | None \<Rightarrow> Val []))"
    by (simp add: docker_cargoFlags_def cu object_assign_def default_custom_def assign_key_def
        read_key_def or_js_def split: option.splits)
  have f: "local_cargoFlags ?p (rust f) =
         (if truthy_js (prop_of (rust f) cargoFlags) then tpl_js (prop_of (rust f) cargoFlags)
          else (case cargoFlags ?g of Some (Val c) \<Rightarrow> c | _ \<Rightarrow> []))"
    by (simp add: local_cargoFlags_def cu object_assign_def default_custom_def assign_key_def
        read_key_def or_js_def truthy_js_def tpl_js_def split: option.splits js.splits)
  show ?thesis unfolding Let_def using a b c d e f by blast
qed

text \<open>
  A global block giving only the tag and \<open>dockerless: true\<close>, with an override giving
  only the image and \<open>dockerless: false\<close>; and a global block whose tag is present
  without a value (\<open>dockerTag:\<close> in YAML, that is \<open>null\<close>), which replaces the
  default tag.
\<close>

theorem config_precedence_truthy_witness:
  "(let p = RustPlugin linux_host (Some ''app'')
              (demo_service\<lparr>custom_rust :=
                 Some (empty_config\<lparr>dockerTag := Some (Val ''latest''),
                                     dockerless := Some (Val True)\<rparr>)\<rparr>) None;
        f = hello\<lparr>rust := Some (empty_config\<lparr>dockerImage := Some (Val ''my/image''),
                                              dockerless := Some (Val False)\<rparr>)\<rparr>;
        q = RustPlugin linux_host (Some ''app'')
              (demo_service\<lparr>custom_rust := Some (empty_config\<lparr>dockerTag := Some Null\<rparr>)\<rparr>) None
    in docker_image p (rust f) = Val ''my/image'' \<and>
       docker_tag p (rust f) = Val ''latest'' \<and>
       docker_cargoFlags p (rust f) = Val [] \<and>
       buildLocally p f = True \<and>
       build_profile p f = Undefined \<and>
       docker_tag q (rust hello) = Null \<and>
       docker_image q (rust hello) = Val ''softprops/lambda-rust'')"
  using config_precedence_truthy
    [where h = linux_host and sp = "Some ''app''" and opt = None
       and svc = "demo_service\<lparr>custom_rust :=
                 Some (empty_config\<lparr>dockerTag := Some (Val ''latest''),
                                     dockerless := Some (Val True)\<rparr>)\<rparr>"
       and f = "hello\<lparr>rust := Some (empty_config\<lparr>dockerImage := Some (Val ''my/image''),
                                              dockerless := Some (Val False)\<rparr>)\<rparr>"]
    config_precedence_truthy
    [where h = linux_host and sp = "Some ''app''" and opt = None
       and svc = "demo_service\<lparr>custom_rust := Some (empty_config\<lparr>dockerTag := Some Null\<rparr>)\<rparr>"
       and f = hello]
  by (simp add: Let_def prop_of_def read_key_def truthy_js_def truthy_jb_def empty_config_def
      hello_def DEFAULT_DOCKER_IMAGE_def)

text \<open>
  With the tag present without a value in the global block, the image reference that
  \<open>dockerBuild\<close> passes to the container runtime ends in \<open>:null\<close>.
\<close>

lemma null_tag_image_reference:
  "last (dockerBuild_args linux_host
           (RustPlugin linux_host (Some ''app'')
              (demo_service\<lparr>custom_rust := Some (empty_config\<lparr>dockerTag := Some Null\<rparr>)\<rparr>) None)
           None (Some ''hello'') (Some ''world'') Undefined)
     = ''softprops/lambda-rust:null''"
  by code_simp

text \<open>
  C3 as stated fails for a key present in both blocks whose override is falsy: with
  \<open>dockerless: false\<close> on the function and \<open>dockerless: true\<close> in the global block
  the function is built locally.
\<close>

theorem override_false_counterexample:
  "buildLocally
     (RustPlugin linux_host (Some ''app'')
        (demo_service\<lparr>custom_rust := Some (empty_config\<lparr>dockerless := Some (Val True)\<rparr>)\<rparr>) None)
     (hello\<lparr>rust := Some (empty_config\<lparr>dockerless := Some (Val False)\<rparr>)\<rparr>) = True"
  by (simp add: buildLocally_def RustPlugin_def Let_def object_assign_def default_custom_def
      assign_key_def or_jb_def truthy_jb_def prop_of_def read_key_def empty_config_def
      demo_service_def hello_def)

section \<open>The argument lists of the executors\<close>

lemma defaultArgs_nonempty: "filter (\<lambda>i. i \<noteq> []) (dockerBuild_defaultArgs h p bin) = dockerBuild_defaultArgs h p bin"
  by (simp add: dockerBuild_defaultArgs_def Let_def)

lemma customArgs_split:
  "\<exists>extra. dockerBuild_customArgs h p funcArgs pkg prof =
     js_split (CHR '' '') (tpl (or_s (env_get h ''SLS_DOCKER_ARGS'') (Some []))) @ extra"
  by (simp add: dockerBuild_customArgs_def Let_def)

lemma sls_value: "env_get h ''SLS_DOCKER_ARGS'' = Some v \<Longrightarrow> tpl (or_s (env_get h ''SLS_DOCKER_ARGS'') (Some [])) = v"
  by (simp add: or_s_def truthy_s_def tpl_def)

lemma split_ws_from_space_only:
  assumes "\<forall>c \<in> set v. js_space c \<longrightarrow> c = CHR '' ''"
  shows "(\<exists>a as as'. split_ws_from False v = a # as \<and> js_split (CHR '' '') v = a # as'
            \<and> filter (\<lambda>t. t \<noteq> []) as = filter (\<lambda>t. t \<noteq> []) as') \<and>
         filter (\<lambda>t. t \<noteq> []) (split_ws_from True v) = filter (\<lambda>t. t \<noteq> []) (js_split (CHR '' '') v)"
  using assms
proof (induction v)
  case Nil
  show ?case by simp
next
  case (Cons x xs)
  then have IH: "(\<exists>a as as'. split_ws_from False xs = a # as \<and> js_split (CHR '' '') xs = a # as'
            \<and> filter (\<lambda>t. t \<noteq> []) as = filter (\<lambda>t. t \<noteq> []) as') \<and>
         filter (\<lambda>t. t \<noteq> []) (split_ws_from True xs) = filter (\<lambda>t. t \<noteq> []) (js_split (CHR '' '') xs)"
    by simp
  then obtain a as as' where a: "split_ws_from False xs = a # as" "js_split (CHR '' '') xs = a # as'"
     "filter (\<lambda>t. t \<noteq> []) as = filter (\<lambda>t. t \<noteq> []) as'" by blast
  from IH have q: "filter (\<lambda>t. t \<noteq> []) (split_ws_from True xs) = filter (\<lambda>t. t \<noteq> []) (js_split (CHR '' '') xs)"
    by blast
  show ?case
  proof (cases "x = CHR '' ''")
    case True
    then have sp: "js_space x" by (simp add: js_space_def)
    show ?thesis using True sp q by simp
  next
    case False
    with Cons.prems have nsp: "\<not> js_space x" by auto
    show ?thesis using False nsp a by simp
  qed
qed

lemma whitespace_tokens_space_only:
  assumes "\<forall>c \<in> set v. js_space c \<longrightarrow> c = CHR '' ''"
  shows "whitespace_tokens v = filter (\<lambda>t. t \<noteq> []) (js_split (CHR '' '') v)"
proof -
  obtain a as as' where a: "split_ws_from False v = a # as" "js_split (CHR '' '') v = a # as'"
     "filter (\<lambda>t. t \<noteq> []) as = filter (\<lambda>t. t \<noteq> []) as'"
    using split_ws_from_space_only [OF assms] by blast
  then show ?thesis by (simp add: whitespace_tokens_def split_ws_def)
qed

text \<open>
  C8, as the code has it. \<open>SLS_DOCKER_ARGS\<close> is split on the space character and the
  empty pieces are dropped; these tokens stand in the argument list right after the eleven
  fixed arguments and before the image reference \<open>{image}:{tag}\<close>, which is last (the
  profile and \<open>CARGO_FLAGS\<close> settings come between). They are the white-space-split
  tokens of the value whenever the space is the only white space in it.
\<close>

theorem docker_args_space_split_tokens:
  assumes "env_get h ''SLS_DOCKER_ARGS'' = Some v"
  shows "(\<exists>rest. dockerBuild_args h p funcArgs pkg bin prof =
            dockerBuild_defaultArgs h p bin
              @ filter (\<lambda>t. t \<noteq> []) (js_split (CHR '' '') v)
              @ rest
              @ [tpl_js (docker_image p funcArgs) @ '':'' @ tpl_js (docker_tag p funcArgs)]) \<and>
         ((\<forall>c \<in> set v. js_space c \<longrightarrow> c = CHR '' '')
            \<longrightarrow> whitespace_tokens v = filter (\<lambda>t. t \<noteq> []) (js_split (CHR '' '') v))"
proof -
  obtain extra where ex: "dockerBuild_customArgs h p funcArgs pkg prof = js_split (CHR '' '') v @ extra"
    using customArgs_split [of h p funcArgs pkg prof] sls_value [OF assms] by auto
  have "dockerBuild_args h p funcArgs pkg bin prof =
          dockerBuild_defaultArgs h p bin
            @ filter (\<lambda>t. t \<noteq> []) (js_split (CHR '' '') v)
            @ filter (\<lambda>t. t \<noteq> []) extra
            @ [tpl_js (docker_image p funcArgs) @ '':'' @ tpl_js (docker_tag p funcArgs)]"
    by (simp add: dockerBuild_args_def Let_def ex defaultArgs_nonempty)
  then have "\<exists>rest. dockerBuild_args h p funcArgs pkg bin prof =
            dockerBuild_defaultArgs h p bin
              @ filter (\<lambda>t. t \<noteq> []) (js_split (CHR '' '') v)
              @ rest
              @ [tpl_js (docker_image p funcArgs) @ '':'' @ tpl_js (docker_tag p funcArgs)]"
    by blast
  then show ?thesis using whitespace_tokens_space_only [of v] by blast
qed

text \<open>The value \<open>-e FOO=1\<close>.\<close>

theorem docker_args_space_split_tokens_witness:
  "(\<exists>rest. dockerBuild_args (linux_host\<lparr>process_env := [(''SLS_DOCKER_ARGS'', ''-e FOO=1'')]\<rparr>)
             demo_plugin None (Some ''hello'') (Some ''world'') Undefined =
           dockerBuild_defaultArgs (linux_host\<lparr>process_env := [(''SLS_DOCKER_ARGS'', ''-e FOO=1'')]\<rparr>)
             demo_plugin (Some ''world'')
             @ [''-e'', ''FOO=1''] @ rest @ [''softprops/lambda-rust:0.2.7-rust-1.43.0'']) \<and>
   whitespace_tokens ''-e FOO=1'' = [''-e'', ''FOO=1'']"
proof -
  let ?h = "linux_host\<lparr>process_env := [(''SLS_DOCKER_ARGS'', ''-e FOO=1'')]\<rparr>"
  have a: "env_get ?h ''SLS_DOCKER_ARGS'' = Some ''-e FOO=1''" by code_simp
  have b: "\<forall>c \<in> set ''-e FOO=1''. js_space c \<longrightarrow> c = CHR '' ''" by (simp add: js_space_def)
  have t: "filter (\<lambda>t. t \<noteq> []) (js_split (CHR '' '') ''-e FOO=1'') = [''-e'', ''FOO=1'']" by simp
  have i: "tpl_js (docker_image demo_plugin None) @ '':'' @ tpl_js (docker_tag demo_plugin None)
             = ''softprops/lambda-rust:0.2.7-rust-1.43.0''" by code_simp
  note main = docker_args_space_split_tokens
      [OF a, where p = demo_plugin and funcArgs = None and pkg = "Some ''hello''"
         and bin = "Some ''world''" and prof = Undefined]
  have first: "\<exists>rest. dockerBuild_args ?h demo_plugin None (Some ''hello'') (Some ''world'') Undefined =
           dockerBuild_defaultArgs ?h demo_plugin (Some ''world'')
             @ [''-e'', ''FOO=1''] @ rest @ [''softprops/lambda-rust:0.2.7-rust-1.43.0'']"
    using main [THEN conjunct1] unfolding t i .
  have second: "whitespace_tokens ''-e FOO=1'' = [''-e'', ''FOO=1'']"
    using main [THEN conjunct2, THEN mp, OF b] unfolding t .
  show ?thesis using first second by blast
qed

text \<open>
  C8 as stated fails for a value whose tokens are separated by a tab: its white-space-split
  tokens are \<open>-e\<close> and \<open>FOO=1\<close>, and the argument list holds the whole value as one
  argument.
\<close>

theorem tab_separated_counterexample:
  "whitespace_tokens (''-e'' @ [CHR 0x09] @ ''FOO=1'') = [''-e'', ''FOO=1''] \<and>
   dockerBuild_args
      (linux_host\<lparr>process_env := [(''SLS_DOCKER_ARGS'', ''-e'' @ [CHR 0x09] @ ''FOO=1'')]\<rparr>)
      demo_plugin None (Some ''hello'') (Some ''world'') Undefined
     = [''run'', ''--rm'', ''-t'', ''-e'', ''BIN=world'',
        ''-v'', ''/srv/app:/code'',
        ''-v'', ''/home/dev/.cargo/registry:/root/.cargo/registry'',
        ''-v'', ''/home/dev/.cargo/git:/root/.cargo/git'',
        ''-e'' @ [CHR 0x09] @ ''FOO=1'',
        ''-e'', ''CARGO_FLAGS= -p hello'',
        ''softprops/lambda-rust:0.2.7-rust-1.43.0'']"
  by code_simp

text \<open>
  C10, as the code has it. Both executors put the package they are handed into the
  invocation: \<open>localBuild\<close> starts the cargo arguments with \<open>build -p <package>\<close> (for a
  non-empty package name), and \<open>dockerBuild\<close> ends \<open>CARGO_FLAGS\<close> with
  \<open> -p <package>\<close>, passed into the container by \<open>-e\<close> right before the image
  reference.
\<close>

theorem package_selector_in_both_executors:
  "(pkg \<noteq> [] \<longrightarrow>
      (\<exists>rest. localBuild_args h p funcArgs (Some pkg) prof = ''build'' # ''-p'' # pkg # rest)) \<and>
   (\<exists>pre flags. dockerBuild_args h p funcArgs (Some pkg) bin prof =
        pre @ [''-e'', ''CARGO_FLAGS='' @ flags @ '' -p '' @ pkg,
               tpl_js (docker_image p funcArgs) @ '':'' @ tpl_js (docker_tag p funcArgs)])"
proof (intro conjI impI)
  assume "pkg \<noteq> []"
  then show "\<exists>rest. localBuild_args h p funcArgs (Some pkg) prof = ''build'' # ''-p'' # pkg # rest"
    by (simp add: localBuild_args_def Let_def filter_truthy_def truthy_s_def tpl_def)
next
  have "\<exists>c1 flags. dockerBuild_customArgs h p funcArgs (Some pkg) prof
      = c1 @ [''-e'', ''CARGO_FLAGS='' @ flags @ '' -p '' @ pkg]"
  proof (cases "truthy_js (docker_cargoFlags p funcArgs)")
    case True
    then have "dockerBuild_customArgs h p funcArgs (Some pkg) prof
      = (if truthy_js prof
         then js_split (CHR '' '') (tpl (or_s (env_get h ''SLS_DOCKER_ARGS'') (Some [])))
                @ [''-e'', ''PROFILE='' @ tpl_js prof]
         else js_split (CHR '' '') (tpl (or_s (env_get h ''SLS_DOCKER_ARGS'') (Some []))))
        @ [''-e'', ''CARGO_FLAGS='' @ tpl_js (docker_cargoFlags p funcArgs) @ '' -p '' @ pkg]"
      by (simp add: dockerBuild_customArgs_def Let_def truthy_js_def tpl_js_def tpl_def)
    then show ?thesis by blast
  next
    case False
    then have "dockerBuild_customArgs h p funcArgs (Some pkg) prof
      = (if truthy_js prof
         then js_split (CHR '' '') (tpl (or_s (env_get h ''SLS_DOCKER_ARGS'') (Some [])))
                @ [''-e'', ''PROFILE='' @ tpl_js prof]
         else js_split (CHR '' '') (tpl (or_s (env_get h ''SLS_DOCKER_ARGS'') (Some []))))
        @ [''-e'', ''CARGO_FLAGS='' @ [] @ '' -p '' @ pkg]"
      by (simp add: dockerBuild_customArgs_def Let_def truthy_js_def tpl_js_def tpl_def)
    then show ?thesis by blast
  qed
  then obtain c1 flags where "dockerBuild_customArgs h p funcArgs (Some pkg) prof
      = c1 @ [''-e'', ''CARGO_FLAGS='' @ flags @ '' -p '' @ pkg]"
    by blast
  then have "dockerBuild_args h p funcArgs (Some pkg) bin prof =
       (dockerBuild_defaultArgs h p bin @ filter (\<lambda>i. i \<noteq> []) c1)
        @ [''-e'', ''CARGO_FLAGS='' @ flags @ '' -p '' @ pkg,
               tpl_js (docker_image p funcArgs) @ '':'' @ tpl_js (docker_tag p funcArgs)]"
    by (simp add: dockerBuild_args_def Let_def defaultArgs_nonempty)
  then show "\<exists>pre flags. dockerBuild_args h p funcArgs (Some pkg) bin prof =
        pre @ [''-e'', ''CARGO_FLAGS='' @ flags @ '' -p '' @ pkg,
               tpl_js (docker_image p funcArgs) @ '':'' @ tpl_js (docker_tag p funcArgs)]"
    by blast
qed

text \<open>The package \<open>hello\<close> on the example host.\<close>

theorem package_selector_in_both_executors_witness:
  "(\<exists>rest. localBuild_args linux_host demo_plugin None (Some ''hello'') Undefined
              = ''build'' # ''-p'' # ''hello'' # rest) \<and>
   (\<exists>pre flags. dockerBuild_args linux_host demo_plugin None (Some ''hello'') (Some ''world'') Undefined =
        pre @ [''-e'', ''CARGO_FLAGS='' @ flags @ '' -p '' @ ''hello'',
               tpl_js (docker_image demo_plugin None) @ '':'' @ tpl_js (docker_tag demo_plugin None)])"
  using package_selector_in_both_executors
    [where pkg = "''hello''" and h = linux_host and p = demo_plugin and funcArgs = None
       and prof = Undefined and bin = "Some ''world''"]
  by simp

text \<open>
  C10 as stated fails: the local argument list for the package \<open>hello\<close> holds
  \<open>-p hello\<close>.
\<close>

theorem localBuild_includes_package_counterexample:
  "localBuild_args linux_host demo_plugin None (Some ''hello'') Undefined
     = [''build'', ''-p'', ''hello'', ''--release'']"
  by code_simp

section \<open>Exceptions of the local executor\<close>

text \<open>
  C7 at an input where the toolchain exits with status 0 and the compiled binary cannot be
  read: \<open>readFileSync\<close> stands outside the \<open>try\<close> blocks of \<open>localBuild\<close>, so the
  executor throws instead of returning a result.
\<close>

theorem localBuild_unreadable_binary_throws:
  "fst (localBuild (linux_host\<lparr>fs_read := (\<lambda>w file. None)\<rparr>) demo_plugin None
          (Some ''hello'') (Some ''world'') Undefined empty_world)
     = Inl (IOError ''target/release/world'')"
  by code_simp

text \<open>
  What the executors do return: \<open>dockerBuild\<close> always returns the result of the command
  it ran; a result that \<open>localBuild\<close> returns is a failed one (the failed command's, or
  \<open>{err, status: 1}\<close> for the archive that could not be written) or the empty object;
  and with a binary name given, the only exception \<open>localBuild\<close> throws is the one of
  reading the compiled binary.
\<close>

theorem executors_return_results:
  "(\<exists>w'. dockerBuild h p funcArgs pkg bin prof w =
           (Inr (proc_spawn h (spawned (cli_log ''Running containerized build'' w))
                   \<lparr>command = tpl (or_s (env_get h ''SLS_DOCKER_CLI'') (Some ''docker'')),
                    args = dockerBuild_args h p funcArgs pkg bin prof, call_env = None\<rparr>), w')) \<and>
   (fst (localBuild h p funcArgs pkg bin prof w) = Inr r
      \<longrightarrow> failed r \<or> r = \<lparr>error = None, status = None, err = None\<rparr>) \<and>
   (fst (localBuild h p funcArgs pkg (Some b) prof w) = Inl e \<longrightarrow> (\<exists>file. e = IOError file))"
proof (intro conjI impI)
  show "\<exists>w'. dockerBuild h p funcArgs pkg bin prof w =
           (Inr (proc_spawn h (spawned (cli_log ''Running containerized build'' w))
                   \<lparr>command = tpl (or_s (env_get h ''SLS_DOCKER_CLI'') (Some ''docker'')),
                    args = dockerBuild_args h p funcArgs pkg bin prof, call_env = None\<rparr>), w')"
    by (simp add: dockerBuild_def Let_def)
next
  assume "fst (localBuild h p funcArgs pkg bin prof w) = Inr r"
  then show "failed r \<or> r = \<lparr>error = None, status = None, err = None\<rparr>"
    by (auto simp: localBuild_def Let_def failed_def split: if_splits option.splits)
next
  assume "fst (localBuild h p funcArgs pkg (Some b) prof w) = Inl e"
  then show "\<exists>file. e = IOError file"
    by (auto simp: localBuild_def Let_def split: if_splits option.splits)
qed

text \<open>A host where writing the archive fails with \<open>EACCES\<close>.\<close>

theorem executors_return_results_witness:
  "fst (localBuild (linux_host\<lparr>fs_write := (\<lambda>w file. Some ''EACCES'')\<rparr>) demo_plugin None
          (Some ''hello'') (Some ''world'') Undefined empty_world)
     = Inr \<lparr>error = None, status = Some 1, err = Some ''EACCES''\<rparr> \<and>
   failed \<lparr>error = None, status = Some 1, err = Some ''EACCES''\<rparr>"
proof -
  let ?h = "linux_host\<lparr>fs_write := (\<lambda>w file. Some ''EACCES'')\<rparr>"
  let ?r = "\<lparr>error = None, status = Some 1, err = Some ''EACCES''\<rparr>"
  have a: "fst (localBuild ?h demo_plugin None (Some ''hello'') (Some ''world'') Undefined empty_world) = Inr ?r"
    by code_simp
  have "?r \<noteq> \<lparr>error = None, status = None, err = None\<rparr>" by simp
  then show ?thesis
    using a executors_return_results
      [where h = ?h and p = demo_plugin and funcArgs = None and pkg = "Some ''hello''"
         and bin = "Some ''world''" and prof = Undefined and w = empty_world and r = ?r]
    by blast
qed

section \<open>The build pass\<close>

lemma build_func_skip:
  assumes "getFunction s n = Some f" and "or_s (runtime f) (provider_runtime s) \<noteq> Some RUST_RUNTIME"
  shows "build_func h p n (w, s, found) = (None, (w, s, found))"
  using assms by (simp add: build_func_def)

lemma build_func_reference_error:
  assumes "getFunction s n = Some f" and "or_s (runtime f) (provider_runtime s) = Some RUST_RUNTIME"
      and "map_of (global_this h) ''cargoPackage'' = None"
  shows "build_func h p n (w, s, found) =
           (Some (ReferenceError ''cargoPackage''),
            (cli_log (''Building Rust '' @ handler f @ '' func...'') w, s, True))"
  using assms by (simp add: build_func_def Let_def)

lemma build_func_failure:
  assumes "getFunction s n = Some f" and "or_s (runtime f) (provider_runtime s) = Some RUST_RUNTIME"
      and "map_of (global_this h) ''cargoPackage'' = Some pkg"
      and "run_executor h p f pkg (cli_log (''Building Rust '' @ handler f @ '' func...'') w) = (Inr res, w2)"
      and "failed res"
  shows "build_func h p n (w, s, found) =
           (Some (BuildError (error res)), (cli_log (error_message res) w2, s, True))"
  using assms by (simp add: build_func_def Let_def)

lemma build_func_success:
  assumes "getFunction s n = Some f" and "or_s (runtime f) (provider_runtime s) = Some RUST_RUNTIME"
      and "map_of (global_this h) ''cargoPackage'' = Some pkg"
      and "run_executor h p f pkg (cli_log (''Building Rust '' @ handler f @ '' func...'') w) = (Inr res, w2)"
      and "\<not> failed res"
  shows "build_func h p n (w, s, found) =
           (None, (w2, s\<lparr>service_functions := AList.update n (packaged h p f) (service_functions s)\<rparr>, True))"
  using assms by (simp add: build_func_def Let_def)

lemma forEach_all_skipped:
  assumes "\<forall>n \<in> set ns. \<exists>f. getFunction s n = Some f \<and> or_s (runtime f) (provider_runtime s) \<noteq> Some RUST_RUNTIME"
  shows "forEach (build_func h p) ns (w, s, found) = (None, (w, s, found))"
  using assms
proof (induction ns)
  case Nil
  show ?case by simp
next
  case (Cons n ns)
  then obtain f where "getFunction s n = Some f" "or_s (runtime f) (provider_runtime s) \<noteq> Some RUST_RUNTIME"
    by auto
  then have "build_func h p n (w, s, found) = (None, (w, s, found))"
    by (rule build_func_skip)
  with Cons show ?case by simp
qed

lemma forEach_append:
  "forEach cb (pre @ rest) st =
     (case forEach cb pre st of (Some e, st') \<Rightarrow> (Some e, st') | (None, st') \<Rightarrow> forEach cb rest st')"
proof (induction pre arbitrary: st)
  case Nil
  show ?case by simp
next
  case (Cons x xs)
  obtain r st' where "cb x st = (r, st')" by (cases "cb x st")
  then show ?case using Cons.IH by (cases r) simp_all
qed

lemma forEach_reference_error:
  assumes "map_of (global_this h) ''cargoPackage'' = None"
      and "\<forall>n \<in> set ns. getFunction s n \<noteq> None"
      and "\<exists>n \<in> set ns. \<exists>f. getFunction s n = Some f \<and> or_s (runtime f) (provider_runtime s) = Some RUST_RUNTIME"
  shows "\<exists>w'. forEach (build_func h p) ns (w, s, found) = (Some (ReferenceError ''cargoPackage''), (w', s, True))
           \<and> spawned w' = spawned w \<and> written w' = written w \<and> made_dirs w' = made_dirs w"
  using assms(2,3)
proof (induction ns)
  case Nil
  then show ?case by simp
next
  case (Cons n ns)
  then obtain f where f: "getFunction s n = Some f" by auto
  show ?case
  proof (cases "or_s (runtime f) (provider_runtime s) = Some RUST_RUNTIME")
    case True
    show ?thesis
      using build_func_reference_error [OF f True assms(1), where p = p and w = w and found = found]
      by (simp add: cli_log_def)
  next
    case False
    have skip: "build_func h p n (w, s, found) = (None, (w, s, found))"
      using f False by (rule build_func_skip)
    from Cons.prems f False
    have "\<exists>m \<in> set ns. \<exists>g. getFunction s m = Some g \<and> or_s (runtime g) (provider_runtime s) = Some RUST_RUNTIME"
      by auto
    moreover from Cons.prems have "\<forall>m \<in> set ns. getFunction s m \<noteq> None" by simp
    ultimately show ?thesis using Cons.IH skip by simp
  qed
qed

lemma targets_resolve:
  assumes "\<exists>n \<in> set (functions' p s). \<exists>f. getFunction s n = Some f \<and> P f"
  shows "\<forall>n \<in> set (functions' p s). getFunction s n \<noteq> None"
proof (cases "truthy_s (options_function p)")
  case True
  with assms show ?thesis by (auto simp: functions'_def)
next
  case False
  then have "functions' p s = map fst (service_functions s)" by (simp add: functions'_def)
  then show ?thesis
    by (auto simp: getFunction_def map_of_eq_None_iff)
qed

lemma build_func_provider:
  assumes "build_func h p n (w, s, found) = (r, (w', s', found'))"
  shows "provider_runtime s' = provider_runtime s \<and> provider_name s' = provider_name s"
  using assms
  by (auto simp: build_func_def Let_def split: option.splits if_splits sum.splits prod.splits)

lemma forEach_provider:
  assumes "forEach (build_func h p) ns (w, s, found) = (r, (w', s', found'))"
  shows "provider_runtime s' = provider_runtime s \<and> provider_name s' = provider_name s"
  using assms
proof (induction ns arbitrary: w s found)
  case Nil
  then show ?case by simp
next
  case (Cons n ns)
  obtain r1 w1 s1 f1 where st: "build_func h p n (w, s, found) = (r1, (w1, s1, f1))"
    by (metis prod_cases3)
  have p1: "provider_runtime s1 = provider_runtime s \<and> provider_name s1 = provider_name s"
    using st by (rule build_func_provider)
  show ?case
  proof (cases r1)
    case None
    with Cons.prems st have "forEach (build_func h p) ns (w1, s1, f1) = (r, (w', s', found'))" by simp
    from Cons.IH [OF this] p1 show ?thesis by simp
  next
    case (Some e)
    with Cons.prems st have "s' = s1" by simp
    with p1 show ?thesis by simp
  qed
qed

lemma getFunction_updated:
  "getFunction (s\<lparr>service_functions := AList.update n f (service_functions s)\<rparr>) n = Some f"
  by (simp add: getFunction_def update_conv')

lemma packaged_fields:
  "map_option artifact (package (packaged h p f)) = Some (Some (artifactPath h p f)) \<and>
   runtime (packaged h p f) = (if runtime f = Some RUST_RUNTIME then Some BASE_RUNTIME else runtime f) \<and>
   handler (packaged h p f) = handler f \<and> rust (packaged h p f) = rust f"
  by (simp add: packaged_def Let_def)

text \<open>
  The guard at the head of \<open>build\<close>: on a provider other than \<open>aws\<close> the pass
  returns at once, without an error, and leaves the outside world and the service as they
  were.
\<close>

theorem other_provider_returns:
  "provider_name s \<noteq> ''aws'' \<Longrightarrow> build h p (w, s) = (None, w, s)"
  by (simp add: build_def)

text \<open>The example service on the provider \<open>azure\<close>.\<close>

theorem other_provider_returns_witness:
  "build linux_host demo_plugin (empty_world, demo_service\<lparr>provider_name := ''azure''\<rparr>)
     = (None, empty_world, demo_service\<lparr>provider_name := ''azure''\<rparr>)"
proof -
  have "provider_name (demo_service\<lparr>provider_name := ''azure''\<rparr>) \<noteq> ''aws''" by simp
  then show ?thesis by (rule other_provider_returns)
qed

text \<open>
  C6. On the provider \<open>aws\<close>, when every target function has an effective runtime other
  than \<open>rust\<close>, the pass throws the error "no Rust functions found" after the loop; no
  command has been run and nothing logged or written, and only the service-wide default
  runtime may have been rewritten.
\<close>

theorem no_rust_functions_raises:
  assumes "provider_name s = ''aws''"
      and "\<forall>n \<in> set (functions' p s). \<exists>f. getFunction s n = Some f
              \<and> or_s (runtime f) (provider_runtime s) \<noteq> Some RUST_RUNTIME"
  shows "build h p (w, s) =
           (Some NoRustFunctions, w,
            (if provider_runtime s = Some RUST_RUNTIME
             then s\<lparr>provider_runtime := Some BASE_RUNTIME\<rparr> else s))"
  using assms(1) forEach_all_skipped [OF assms(2), where h = h and w = w and found = False]
  by (simp add: build_def Let_def)

text \<open>A service whose only function runs on \<open>nodejs12.x\<close>.\<close>

theorem no_rust_functions_raises_witness:
  "build linux_host demo_plugin (empty_world, node_service) = (Some NoRustFunctions, empty_world, node_service)"
proof -
  have a: "provider_name node_service = ''aws''" by code_simp
  have t: "functions' demo_plugin node_service = [''web'']" by code_simp
  have g: "getFunction node_service ''web'' = Some node_fn" by code_simp
  have r: "or_s (runtime node_fn) (provider_runtime node_service) \<noteq> Some RUST_RUNTIME" by code_simp
  have b: "\<forall>n \<in> set (functions' demo_plugin node_service). \<exists>f. getFunction node_service n = Some f
              \<and> or_s (runtime f) (provider_runtime node_service) \<noteq> Some RUST_RUNTIME"
    using t g r by simp
  have pr: "provider_runtime node_service \<noteq> Some RUST_RUNTIME" by code_simp
  show ?thesis
    using no_rust_functions_raises [OF a b, of linux_host empty_world] pr by simp
qed

text \<open>
  C1, as the code has it. On the provider \<open>aws\<close>, in a process whose global object has
  no property \<open>cargoPackage\<close>, a pass with at least one target function whose effective
  runtime is \<open>rust\<close> throws a ReferenceError for \<open>cargoPackage\<close> at the first such
  function, before any executor is entered: no command has been run, nothing has been
  written, and the service is unchanged.
\<close>

theorem build_reference_error:
  assumes "provider_name s = ''aws''"
      and "map_of (global_this h) ''cargoPackage'' = None"
      and "\<exists>n \<in> set (functions' p s). \<exists>f. getFunction s n = Some f
              \<and> or_s (runtime f) (provider_runtime s) = Some RUST_RUNTIME"
  shows "\<exists>w'. build h p (w, s) = (Some (ReferenceError ''cargoPackage''), w', s)
           \<and> spawned w' = spawned w \<and> written w' = written w"
proof -
  have "\<forall>n \<in> set (functions' p s). getFunction s n \<noteq> None"
    using assms(3) by (rule targets_resolve)
  then obtain w' where
    "forEach (build_func h p) (functions' p s) (w, s, False) = (Some (ReferenceError ''cargoPackage''), (w', s, True))"
    "spawned w' = spawned w" "written w' = written w"
    using forEach_reference_error [OF assms(2) _ assms(3), where p = p and w = w and found = False] by blast
  then show ?thesis using assms(1) by (simp add: build_def)
qed

text \<open>The example service on the example host.\<close>

theorem build_reference_error_witness:
  "fst (build linux_host demo_plugin (empty_world, demo_service)) = Some (ReferenceError ''cargoPackage'') \<and>
   spawned (fst (snd (build linux_host demo_plugin (empty_world, demo_service)))) = [] \<and>
   snd (snd (build linux_host demo_plugin (empty_world, demo_service))) = demo_service"
proof -
  have a: "provider_name demo_service = ''aws''" by (simp add: demo_service_def)
  have b: "map_of (global_this linux_host) ''cargoPackage'' = None" by (simp add: linux_host_def)
  have c1: "''hello'' \<in> set (functions' demo_plugin demo_service)" by code_simp
  have c2: "getFunction demo_service ''hello'' = Some hello" by code_simp
  have c3: "or_s (runtime hello) (provider_runtime demo_service) = Some RUST_RUNTIME" by code_simp
  have c: "\<exists>n \<in> set (functions' demo_plugin demo_service). \<exists>f. getFunction demo_service n = Some f
              \<and> or_s (runtime f) (provider_runtime demo_service) = Some RUST_RUNTIME"
    using c1 c2 c3 by blast
  obtain w' where "build linux_host demo_plugin (empty_world, demo_service)
      = (Some (ReferenceError ''cargoPackage''), w', demo_service)" "spawned w' = spawned empty_world"
    using build_reference_error [OF a b c, of empty_world] by blast
  then show ?thesis by (simp add: empty_world_def)
qed

text \<open>
  C1 as stated fails on another provider: the pass returns at once, without an error, though
  the function \<open>hello\<close> has the effective runtime \<open>rust\<close>.
\<close>

theorem unsupported_provider_counterexample:
  "build linux_host demo_plugin (empty_world, demo_service\<lparr>provider_name := ''google''\<rparr>)
     = (None, empty_world, demo_service\<lparr>provider_name := ''google''\<rparr>) \<and>
   or_s (runtime hello) (provider_runtime (demo_service\<lparr>provider_name := ''google''\<rparr>))
     = Some RUST_RUNTIME"
  by code_simp

text \<open>
  C5. When the pass has reached a matching function and the executor called for it returns a
  failed result (an \<open>error\<close>, or a \<open>status\<close> above 0), \<open>build\<close> throws at once: the
  pass ends in the state the executor left, with one more log line, whatever functions
  follow in the enumeration; none of them is built.
\<close>

theorem executor_failure_aborts_pass:
  assumes "provider_name s = ''aws''"
      and "functions' p s = pre @ n # post"
      and "forEach (build_func h p) pre (w, s, False) = (None, (w1, s1, found))"
      and "getFunction s1 n = Some f"
      and "or_s (runtime f) (provider_runtime s1) = Some RUST_RUNTIME"
      and "map_of (global_this h) ''cargoPackage'' = Some pkg"
      and "run_executor h p f pkg (cli_log (''Building Rust '' @ handler f @ '' func...'') w1) = (Inr res, w2)"
      and "failed res"
  shows "build h p (w, s) = (Some (BuildError (error res)), cli_log (error_message res) w2, s1)
           \<and> spawned (cli_log (error_message res) w2) = spawned w2"
proof -
  have step: "build_func h p n (w1, s1, found) =
           (Some (BuildError (error res)), (cli_log (error_message res) w2, s1, True))"
    using assms(4-8) by (rule build_func_failure)
  have "forEach (build_func h p) (pre @ n # post) (w, s, False) =
          (Some (BuildError (error res)), (cli_log (error_message res) w2, s1, True))"
    by (simp add: forEach_append assms(3) step)
  then show ?thesis using assms(1,2) by (simp add: build_def cli_log_def)
qed

text \<open>
  Two \<open>rust\<close> functions on a host where every command exits with 101: one command is
  run, for the first function.
\<close>

theorem executor_failure_aborts_pass_witness:
  "fst (build failing_host demo_plugin (empty_world, demo_service)) = Some (BuildError None) \<and>
   snd (snd (build failing_host demo_plugin (empty_world, demo_service))) = demo_service \<and>
   length (spawned (fst (snd (build failing_host demo_plugin (empty_world, demo_service))))) = 1"
proof -
  let ?res = "\<lparr>error = None, status = Some 101, err = None\<rparr>"
  let ?w1 = "cli_log (''Building Rust '' @ handler hello @ '' func...'') empty_world"
  let ?w2 = "snd (run_executor failing_host demo_plugin hello (Some ''selected'') ?w1)"
  have a: "provider_name demo_service = ''aws''" by code_simp
  have b: "functions' demo_plugin demo_service = [] @ ''hello'' # [''other'']" by code_simp
  have c: "forEach (build_func failing_host demo_plugin) [] (empty_world, demo_service, False)
             = (None, (empty_world, demo_service, False))" by simp
  have d: "getFunction demo_service ''hello'' = Some hello" by code_simp
  have e: "or_s (runtime hello) (provider_runtime demo_service) = Some RUST_RUNTIME" by code_simp
  have f: "map_of (global_this failing_host) ''cargoPackage'' = Some (Some ''selected'')" by code_simp
  have g: "run_executor failing_host demo_plugin hello (Some ''selected'') ?w1 = (Inr ?res, ?w2)"
    by code_simp
  have i: "failed ?res" by code_simp
  have l: "length (spawned ?w2) = 1" by code_simp
  from executor_failure_aborts_pass [OF a b c d e f g i]
  show ?thesis using l by simp
qed

text \<open>
  C4, as the code has it. When the executor called for a matching function returns a result
  that is not failed, the callback stores the artifact path
  \<open>{dockerPath}/target/lambda/{debug|release}/{binary}.zip\<close> as the function's packaging
  location and rewrites the function's own runtime to \<open>provided\<close> under the guard that
  it is \<open>rust\<close>: a function that matches through the service-wide default keeps its
  runtime undeclared. After a loop that ends without an exception, the service-wide default
  runtime is \<open>provided\<close> if it was \<open>rust\<close>, and unchanged otherwise.
\<close>

theorem success_sets_artifact_and_guarded_runtime:
  "(getFunction s n = Some f \<and> or_s (runtime f) (provider_runtime s) = Some RUST_RUNTIME \<and>
    map_of (global_this h) ''cargoPackage'' = Some pkg \<and>
    run_executor h p f pkg (cli_log (''Building Rust '' @ handler f @ '' func...'') w) = (Inr res, w2) \<and>
    \<not> failed res
    \<longrightarrow> (\<exists>s'. build_func h p n (w, s, found) = (None, (w2, s', True)) \<and>
           getFunction s' n = Some (packaged h p f) \<and>
           map_option artifact (package (packaged h p f)) =
             Some (Some (path_join h
               [this_dockerPath p,
                ''target/lambda/'' @ (if build_profile p f = Val ''dev'' then ''debug'' else ''release''),
                tpl (binary (cargoBinary f)) @ ''.zip''])) \<and>
           runtime (packaged h p f) =
             (if runtime f = Some RUST_RUNTIME then Some BASE_RUNTIME else runtime f))) \<and>
   (provider_name s = ''aws'' \<and>
    fst (forEach (build_func h p) (functions' p s) (w, s, False)) = None
    \<longrightarrow> provider_runtime (snd (snd (build h p (w, s)))) =
          (if provider_runtime s = Some RUST_RUNTIME then Some BASE_RUNTIME
           else provider_runtime s))"
proof (intro conjI impI)
  assume a: "getFunction s n = Some f \<and> or_s (runtime f) (provider_runtime s) = Some RUST_RUNTIME \<and>
    map_of (global_this h) ''cargoPackage'' = Some pkg \<and>
    run_executor h p f pkg (cli_log (''Building Rust '' @ handler f @ '' func...'') w) = (Inr res, w2) \<and>
    \<not> failed res"
  let ?s' = "s\<lparr>service_functions := AList.update n (packaged h p f) (service_functions s)\<rparr>"
  have step: "build_func h p n (w, s, found) = (None, (w2, ?s', True))"
    using build_func_success [where s = s and n = n and f = f and h = h and pkg = pkg and p = p
        and w = w and res = res and ?w2.0 = w2 and found = found] a by blast
  have art: "map_option artifact (package (packaged h p f)) =
             Some (Some (path_join h
               [this_dockerPath p,
                ''target/lambda/'' @ (if build_profile p f = Val ''dev'' then ''debug'' else ''release''),
                tpl (binary (cargoBinary f)) @ ''.zip'']))"
    using packaged_fields [of h p f] by (auto simp: artifactPath_def)
  show "\<exists>s'. build_func h p n (w, s, found) = (None, (w2, s', True)) \<and>
           getFunction s' n = Some (packaged h p f) \<and>
           map_option artifact (package (packaged h p f)) =
             Some (Some (path_join h
               [this_dockerPath p,
                ''target/lambda/'' @ (if build_profile p f = Val ''dev'' then ''debug'' else ''release''),
                tpl (binary (cargoBinary f)) @ ''.zip''])) \<and>
           runtime (packaged h p f) =
             (if runtime f = Some RUST_RUNTIME then Some BASE_RUNTIME else runtime f)"
    using step getFunction_updated [where s = s and n = n and f = "packaged h p f"] art packaged_fields [of h p f]
    by blast
next
  assume b: "provider_name s = ''aws'' \<and>
    fst (forEach (build_func h p) (functions' p s) (w, s, False)) = None"
  obtain w' s' fnd where fe: "forEach (build_func h p) (functions' p s) (w, s, False) = (None, (w', s', fnd))"
    using b by (metis prod.collapse)
  have pr: "provider_runtime s' = provider_runtime s"
    using forEach_provider [OF fe] by simp
  show "provider_runtime (snd (snd (build h p (w, s)))) =
          (if provider_runtime s = Some RUST_RUNTIME then Some BASE_RUNTIME
           else provider_runtime s)"
    using b fe pr by (simp add: build_def Let_def)
qed

text \<open>
  The function \<open>hello\<close> on a host whose commands succeed, and the service whose default
  runtime is \<open>rust\<close>.
\<close>

theorem success_sets_artifact_and_guarded_runtime_witness:
  "getFunction (snd (snd (build linux_host_global demo_plugin
       (empty_world, demo_service\<lparr>service_functions := [(''hello'', hello)]\<rparr>)))) ''hello''
     = Some (packaged linux_host_global demo_plugin hello) \<and>
   map_option artifact (package (packaged linux_host_global demo_plugin hello))
     = Some (Some ''/srv/app/target/lambda/release/world.zip'') \<and>
   runtime (packaged linux_host_global demo_plugin hello) = Some ''provided'' \<and>
   provider_runtime (snd (snd (build linux_host_global demo_plugin
       (empty_world, default_runtime_service)))) = Some ''provided''"
proof -
  let ?h = linux_host_global
  let ?s = "demo_service\<lparr>service_functions := [(''hello'', hello)]\<rparr>"
  let ?w1 = "cli_log (''Building Rust '' @ handler hello @ '' func...'') empty_world"
  let ?res = "\<lparr>error = None, status = Some 0, err = None\<rparr>"
  let ?w2 = "snd (run_executor ?h demo_plugin hello (Some ''selected'') ?w1)"
  have a: "getFunction ?s ''hello'' = Some hello" by code_simp
  have b: "or_s (runtime hello) (provider_runtime ?s) = Some RUST_RUNTIME" by code_simp
  have c: "map_of (global_this ?h) ''cargoPackage'' = Some (Some ''selected'')" by code_simp
  have d: "run_executor ?h demo_plugin hello (Some ''selected'') ?w1 = (Inr ?res, ?w2)" by code_simp
  have e: "\<not> failed ?res" by code_simp
  have all: "getFunction ?s ''hello'' = Some hello \<and> or_s (runtime hello) (provider_runtime ?s) = Some RUST_RUNTIME \<and>
    map_of (global_this ?h) ''cargoPackage'' = Some (Some ''selected'') \<and>
    run_executor ?h demo_plugin hello (Some ''selected'') ?w1 = (Inr ?res, ?w2) \<and> \<not> failed ?res"
    using a b c d e by blast
  have k: "provider_name default_runtime_service = ''aws'' \<and>
    fst (forEach (build_func ?h demo_plugin) (functions' demo_plugin default_runtime_service)
          (empty_world, default_runtime_service, False)) = None"
    by code_simp
  note main = success_sets_artifact_and_guarded_runtime
  have first: "getFunction (snd (snd (build ?h demo_plugin (empty_world, ?s)))) ''hello''
     = Some (packaged ?h demo_plugin hello)" by code_simp
  have run: "runtime hello = Some RUST_RUNTIME" by code_simp
  have path: "path_join ?h
               [this_dockerPath demo_plugin,
                ''target/lambda/'' @ (if build_profile demo_plugin hello = Val ''dev'' then ''debug'' else ''release''),
                tpl (binary (cargoBinary hello)) @ ''.zip''] = ''/srv/app/target/lambda/release/world.zip''"
    by code_simp
  have pr: "provider_runtime default_runtime_service = Some RUST_RUNTIME" by code_simp
  from main [where s = ?s and n = "''hello''" and f = hello and h = ?h and pkg = "Some ''selected''"
      and p = demo_plugin and w = empty_world and res = ?res and ?w2.0 = ?w2 and found = False,
      THEN conjunct1, rule_format, OF all]
  have second: "map_option artifact (package (packaged ?h demo_plugin hello))
     = Some (Some ''/srv/app/target/lambda/release/world.zip'') \<and>
   runtime (packaged ?h demo_plugin hello) = Some ''provided''"
    using path run by (auto simp: BASE_RUNTIME_def)
  from main [where s = default_runtime_service and h = ?h and p = demo_plugin and w = empty_world,
      THEN conjunct2, rule_format, OF k]
  have third: "provider_runtime (snd (snd (build ?h demo_plugin (empty_world, default_runtime_service)))) = Some ''provided''"
    using pr by (simp add: BASE_RUNTIME_def)
  show ?thesis using first second third by blast
qed

text \<open>
  C4 as stated fails for a function that matches through the service-wide default: after a
  successful pass its packaging location is set and its own runtime is still undeclared.
\<close>

theorem default_runtime_counterexample:
  "fst (build linux_host_global demo_plugin (empty_world, default_runtime_service)) = None \<and>
   map (\<lambda>(n, f). (n, runtime f, map_option artifact (package f)))
       (service_functions (snd (snd (build linux_host_global demo_plugin
                                       (empty_world, default_runtime_service)))))
     = [(''hello'', None, Some (Some ''/srv/app/target/lambda/release/world.zip''))]"
  by code_simp

end
